theory Spec2Isabelle
  imports Complex_Main "HOL-Library.Word"
begin

unbundle bit_operations_syntax

section \<open>Values of the host language\<close>

text \<open>
  Strings are lists of code units below 256 (\<^typ>\<open>char\<close>); \<open>charCodeAt\<close> is
  \<^const>\<open>of_char\<close>.  A value that can be thrown is either an \<open>Error\<close> object, of which
  only the \<open>message\<close> is observed, or any other value, of which only its rendering by
  \<open>String(...)\<close> is observed.  A function that may throw returns \<open>thrown + 'a\<close>.
\<close>

datatype thrown = Error string | NonError string

text \<open>\<^verbatim>\<open>error instanceof Error ? error.message : String(error)\<close>\<close>

fun errorText :: "thrown \<Rightarrow> string" where
  "errorText (Error m) = m"
| "errorText (NonError s) = s"

subsection \<open>Numbers read from strings\<close>

text \<open>
  The result of \<open>parseFloat\<close>: not-a-number, an infinity, or a finite number, kept as
  the exact mathematical value of the decimal literal that was read.  The code only
  compares such a number with zero.  The Number value is the double nearest to the
  mathematical value (ties to even), so it is positive exactly when the mathematical
  value exceeds half of the least positive double, \<open>2 ^ -1075\<close>; both zeros compare
  equal to zero, and every comparison with not-a-number is false.
\<close>

datatype jsnum = NaN | PosInfinity | NegInfinity | Finite rat

definition halfMinDouble :: rat where
  "halfMinDouble = 1 / 2 ^ 1075"

text \<open>\<^verbatim>\<open>x > 0\<close>\<close>

fun gtZero :: "jsnum \<Rightarrow> bool" where
  "gtZero NaN = False"
| "gtZero PosInfinity = True"
| "gtZero NegInfinity = False"
| "gtZero (Finite q) = (halfMinDouble < q)"

text \<open>\<^verbatim>\<open>x <= 0\<close>\<close>

fun leZero :: "jsnum \<Rightarrow> bool" where
  "leZero NaN = False"
| "leZero PosInfinity = False"
| "leZero NegInfinity = True"
| "leZero (Finite q) = (q \<le> halfMinDouble)"

definition isDigit :: "char \<Rightarrow> bool" where
  "isDigit c = (48 \<le> (of_char c :: nat) \<and> (of_char c :: nat) \<le> 57)"

definition isWhiteSpace :: "char \<Rightarrow> bool" where
  "isWhiteSpace c = ((of_char c :: nat) \<in> {9, 10, 11, 12, 13, 32, 160})"

definition digitsValue :: "string \<Rightarrow> nat" where
  "digitsValue ds = foldl (\<lambda>v c. 10 * v + (of_char c - 48)) 0 ds"

text \<open>The exponent part \<open>e\<close>/\<open>E\<close>, an optional sign, and at least one digit; it
  contributes nothing when no digit follows.\<close>

definition exponentOf :: "string \<Rightarrow> int" where
  "exponentOf r =
     (case r of
        [] \<Rightarrow> 0
      | c # t \<Rightarrow>
          if c = CHR ''e'' \<or> c = CHR ''E'' then
            (case t of
               [] \<Rightarrow> 0
             | d # u \<Rightarrow>
                 if d = CHR ''-'' then
                   (if takeWhile isDigit u = [] then 0 else - int (digitsValue (takeWhile isDigit u)))
                 else if d = CHR ''+'' then
                   (if takeWhile isDigit u = [] then 0 else int (digitsValue (takeWhile isDigit u)))
                 else
                   (if takeWhile isDigit t = [] then 0 else int (digitsValue (takeWhile isDigit t))))
          else 0)"

definition scale10 :: "rat \<Rightarrow> int \<Rightarrow> rat" where
  "scale10 q e = (if 0 \<le> e then q * 10 ^ nat e else q / 10 ^ nat (- e))"

text \<open>The longest prefix that is an unsigned decimal literal: \<open>Infinity\<close>, or digits
  with an optional fraction and an optional exponent, at least one digit before or
  after the point.\<close>

definition parseUnsigned :: "string \<Rightarrow> jsnum" where
  "parseUnsigned s =
     (if take 8 s = ''Infinity'' then PosInfinity
      else
        let intDigits = takeWhile isDigit s;
            r1 = dropWhile isDigit s;
            hasPoint = (r1 \<noteq> [] \<and> hd r1 = CHR ''.'');
            fracDigits = (if hasPoint then takeWhile isDigit (tl r1) else []);
            r2 = (if hasPoint then dropWhile isDigit (tl r1) else r1)
        in if intDigits = [] \<and> fracDigits = [] then NaN
           else Finite (scale10 (of_nat (digitsValue (intDigits @ fracDigits)) / 10 ^ length fracDigits)
                          (exponentOf r2)))"

fun negate :: "jsnum \<Rightarrow> jsnum" where
  "negate NaN = NaN"
| "negate PosInfinity = NegInfinity"
| "negate NegInfinity = PosInfinity"
| "negate (Finite q) = Finite (- q)"

text \<open>\<open>parseFloat\<close>: leading white space is skipped, then the longest prefix that is a
  signed decimal literal is read; what follows it is ignored; no such prefix gives
  not-a-number.\<close>

definition parseFloat :: "string \<Rightarrow> jsnum" where
  "parseFloat s =
     (case dropWhile isWhiteSpace s of
        [] \<Rightarrow> NaN
      | c # t \<Rightarrow>
          if c = CHR ''-'' then negate (parseUnsigned t)
          else if c = CHR ''+'' then parseUnsigned t
          else parseUnsigned (c # t))"

subsection \<open>Rendering numbers\<close>

definition digitChar :: "nat \<Rightarrow> char" where
  "digitChar d = ''0123456789abcdefghijklmnopqrstuvwxyz'' ! d"

text \<open>\<open>n.toString(radix)\<close> for a non-negative integer and a radix from 2 to 36,
  lower-case digits.\<close>

fun toStringRadix :: "nat \<Rightarrow> nat \<Rightarrow> string" where
  "toStringRadix radix n =
     (if radix < 2 \<or> n < radix then [digitChar n]
      else toStringRadix radix (n div radix) @ [digitChar (n mod radix)])"

declare toStringRadix.simps [simp del]

text \<open>
  \<open>chainId.toString()\<close> for a chain id that is a safe integer
  (\<open>Number.isSafeInteger\<close>: a whole number of magnitude at most \<open>2 ^ 53 - 1\<close>), where the
  rendering is the plain decimal numeral.  Larger numbers are rendered with rounded
  digits or as \<open>1e+21\<close>; they are outside the model, and every statement that depends on
  the rendering assumes \<open>isSafeInteger\<close>.
\<close>

definition isSafeInteger :: "int \<Rightarrow> bool" where
  "isSafeInteger i = (\<bar>i\<bar> \<le> 2 ^ 53 - 1)"

definition numberToString :: "int \<Rightarrow> string" where
  "numberToString i = (if i < 0 then CHR ''-'' # toStringRadix 10 (nat (- i)) else toStringRadix 10 (nat i))"

definition padStart :: "nat \<Rightarrow> char \<Rightarrow> string \<Rightarrow> string" where
  "padStart n c s = replicate (n - length s) c @ s"

definition padEnd :: "nat \<Rightarrow> char \<Rightarrow> string \<Rightarrow> string" where
  "padEnd n c s = s @ replicate (n - length s) c"

section \<open>Types of the library (types/private-trading.ts)\<close>

datatype SupportedToken = USDC | USDT | DAI | WETH | WBTC

datatype TransactionState = IDLE | PENDING | CONFIRMING | INDEXING | COMPLETED | FAILED

datatype PrivacyPoolStatus = NOT_INITIALIZED | READY | SHIELDING | UNSHIELDING | ERROR

datatype TradeType = ENTRY | EXIT

record PrivateTradeConfig =
  tradeType :: TradeType
  token :: SupportedToken
  amount :: string
  slippageTolerance :: rat
  autoUnshield :: "bool option"
  maxIndexingTime :: "int option"

record PrivateFundsStatus =
  shieldedBalance :: string
  incognitoBalance :: string
  mainWalletBalance :: string
  privacyPoolStatus :: PrivacyPoolStatus
  isReady :: bool
  transactionState :: TransactionState
  error :: "string option"
  lastUpdated :: int

record IncognitoWallet =
  address :: string
  mainWalletAddress :: string
  chainId :: int
  isActive :: bool
  createdAt :: int
  label :: "string option"

text \<open>The fields of \<open>ShieldTransaction\<close> carry the prefix \<open>s_\<close> and those of
  \<open>UnshieldTransaction\<close> the prefix \<open>u_\<close>; \<open>Submitted\<close> is the object
  \<open>{ txHash, state }\<close> that the shield and unshield modules return.\<close>

record Submitted =
  txHash :: string
  state :: TransactionState

record ShieldTransaction =
  s_txHash :: string
  s_token :: SupportedToken
  s_amount :: string
  s_state :: TransactionState
  s_startedAt :: int
  s_confirmedAt :: "int option"
  s_error :: "string option"

record UnshieldTransaction =
  u_txHash :: string
  u_token :: SupportedToken
  u_amount :: string
  u_destinationAddress :: string
  u_state :: TransactionState
  u_startedAt :: int
  u_completedAt :: "int option"
  u_error :: "string option"

section \<open>The privacy modules (sdk/privacy)\<close>

definition isHexChar :: "char \<Rightarrow> bool" where
  "isHexChar c = (c \<in> set ''0123456789abcdefABCDEF'')"

text \<open>\<^verbatim>\<open>/^0x[a-fA-F0-9]{40}$/\<close>\<close>

definition matchAddress :: "string \<Rightarrow> bool" where
  "matchAddress s = (take 2 s = ''0x'' \<and> length s = 42 \<and> list_all isHexChar (drop 2 s))"

text \<open>\<^verbatim>\<open>/^0x[a-fA-F0-9]{64}$/\<close>\<close>

definition matchTxHash :: "string \<Rightarrow> bool" where
  "matchTxHash s = (take 2 s = ''0x'' \<and> length s = 66 \<and> list_all isHexChar (drop 2 s))"

subsection \<open>shield.ts\<close>

text \<open>The argument \<open>rnd\<close> stands for \<open>Math.random().toString(16).slice(2)\<close>.\<close>

definition shieldTokens :: "string \<Rightarrow> string \<Rightarrow> SupportedToken \<Rightarrow> string \<Rightarrow> int \<Rightarrow> thrown + Submitted" where
  "shieldTokens rnd walletAddress token' amount' chainId' =
     (if walletAddress = [] \<or> \<not> matchAddress walletAddress then Inl (Error ''Invalid wallet address'')
      else if amount' = [] \<or> leZero (parseFloat amount') then Inl (Error ''Invalid amount'')
      else Inr \<lparr>txHash = ''0x'' @ padEnd 64 CHR ''0'' rnd, state = PENDING\<rparr>)"

definition getShieldedBalance :: "string \<Rightarrow> SupportedToken \<Rightarrow> int \<Rightarrow> thrown + string" where
  "getShieldedBalance walletAddress token' chainId' =
     (if walletAddress = [] \<or> \<not> matchAddress walletAddress then Inl (Error ''Invalid wallet address'')
      else Inr ''0'')"

definition getTransactionStatus :: "string \<Rightarrow> thrown + TransactionState" where
  "getTransactionStatus txHash' =
     (if txHash' = [] \<or> \<not> matchTxHash txHash' then Inl (Error ''Invalid transaction hash'')
      else Inr COMPLETED)"

subsection \<open>unshield.ts\<close>

definition unshieldTokens :: "string \<Rightarrow> string \<Rightarrow> SupportedToken \<Rightarrow> string \<Rightarrow> int \<Rightarrow> thrown + Submitted" where
  "unshieldTokens rnd destinationAddress token' amount' chainId' =
     (if destinationAddress = [] \<or> \<not> matchAddress destinationAddress then Inl (Error ''Invalid destination address'')
      else if amount' = [] \<or> leZero (parseFloat amount') then Inl (Error ''Invalid amount'')
      else Inr \<lparr>txHash = ''0x'' @ padEnd 64 CHR ''0'' rnd, state = PENDING\<rparr>)"

definition getUnshieldStatus :: "string \<Rightarrow> thrown + TransactionState" where
  "getUnshieldStatus txHash' =
     (if txHash' = [] \<or> \<not> matchTxHash txHash' then Inl (Error ''Invalid transaction hash'')
      else Inr COMPLETED)"

subsection \<open>incognito.ts\<close>

text \<open>One round of the loop of \<open>simpleHash\<close>: \<^verbatim>\<open>hash = (hash << 5) - hash + char; hash = hash & hash\<close>.
  The value is a 32-bit integer after every round.\<close>

definition hashStep :: "32 word \<Rightarrow> char \<Rightarrow> 32 word" where
  "hashStep hash c = (let h = push_bit 5 hash - hash + of_nat (of_char c) in h AND h)"

definition simpleHash :: "string \<Rightarrow> string" where
  "simpleHash input =
     (let hash = foldl hashStep 0 input;
          hexHash = padStart 8 CHR ''0'' (toStringRadix 16 (nat \<bar>sint hash\<bar>))
      in take 40 (hexHash @ hexHash @ hexHash @ hexHash @ hexHash))"

definition deriveIncognitoAddress :: "string \<Rightarrow> int \<Rightarrow> thrown + string" where
  "deriveIncognitoAddress mainWalletAddress' chainId' =
     (if mainWalletAddress' = [] \<or> \<not> matchAddress mainWalletAddress' then Inl (Error ''Invalid main wallet address'')
      else let hash = simpleHash (mainWalletAddress' @ numberToString chainId')
           in Inr (''0x'' @ take 40 hash))"

definition getIncognitoBalance :: "string \<Rightarrow> SupportedToken \<Rightarrow> int \<Rightarrow> thrown + string" where
  "getIncognitoBalance incognitoAddress token' chainId' =
     (if incognitoAddress = [] \<or> \<not> matchAddress incognitoAddress then Inl (Error ''Invalid incognito address'')
      else Inr ''0'')"

definition isValidIncognitoAddress :: "string \<Rightarrow> bool" where
  "isValidIncognitoAddress address' = matchAddress address'"

section \<open>The service (privateTradingService.ts)\<close>

text \<open>
  The service reaches the three modules through their exported functions, which a
  deployment (or a test) may replace; \<open>sdk\<close> holds the functions in use.  The status
  query is asked repeatedly for one transaction, so it also takes the number of earlier
  queries.  Every module call is taken to settle: it returns a value or throws.  Each
  operation of the service returns the calls it made to the modules, in order, next to
  its result; the argument \<open>chainId'\<close> is the field \<open>this.chainId\<close> of the service and
  \<open>now\<close> is the reading of \<open>Date.now()\<close>.
\<close>

record sdk =
  ShieldModule_shieldTokens :: "string \<Rightarrow> SupportedToken \<Rightarrow> string \<Rightarrow> int \<Rightarrow> thrown + Submitted"
  ShieldModule_getShieldedBalance :: "string \<Rightarrow> SupportedToken \<Rightarrow> int \<Rightarrow> thrown + string"
  ShieldModule_getTransactionStatus :: "nat \<Rightarrow> string \<Rightarrow> thrown + TransactionState"
  UnshieldModule_unshieldTokens :: "string \<Rightarrow> SupportedToken \<Rightarrow> string \<Rightarrow> int \<Rightarrow> thrown + Submitted"
  IncognitoModule_deriveIncognitoAddress :: "string \<Rightarrow> int \<Rightarrow> thrown + string"
  IncognitoModule_getIncognitoBalance :: "string \<Rightarrow> SupportedToken \<Rightarrow> int \<Rightarrow> thrown + string"

text \<open>The modules as the repository implements them.\<close>

definition sourceModules :: "string \<Rightarrow> sdk" where
  "sourceModules rnd =
     \<lparr>ShieldModule_shieldTokens = shieldTokens rnd,
      ShieldModule_getShieldedBalance = getShieldedBalance,
      ShieldModule_getTransactionStatus = (\<lambda>n. getTransactionStatus),
      UnshieldModule_unshieldTokens = unshieldTokens rnd,
      IncognitoModule_deriveIncognitoAddress = deriveIncognitoAddress,
      IncognitoModule_getIncognitoBalance = getIncognitoBalance\<rparr>"

datatype call =
    ShieldTokens string SupportedToken string int
  | GetShieldedBalance string SupportedToken int
  | GetTransactionStatus string
  | UnshieldTokens string SupportedToken string int
  | DeriveIncognitoAddress string int
  | GetIncognitoBalance string SupportedToken int

definition DEFAULT_MAX_INDEXING_TIME :: int where
  "DEFAULT_MAX_INDEXING_TIME = 70000"


definition preparePrivateFunds ::
  "sdk \<Rightarrow> int \<Rightarrow> int \<Rightarrow> string \<Rightarrow> PrivateTradeConfig \<Rightarrow> call list \<times> (thrown + ShieldTransaction)" where
  "preparePrivateFunds M chainId' now mainWalletAddress' config =
     (let startedAt = now in
      ([ShieldTokens mainWalletAddress' (token config) (amount config) chainId'],
       case ShieldModule_shieldTokens M mainWalletAddress' (token config) (amount config) chainId' of
         Inr r \<Rightarrow>
           Inr \<lparr>s_txHash = txHash r, s_token = token config, s_amount = amount config,
                s_state = state r, s_startedAt = startedAt, s_confirmedAt = None, s_error = None\<rparr>
       | Inl e \<Rightarrow> Inl (Error (''Failed to prepare private funds: '' @ errorText e))))"

definition unshieldForTrading ::
  "sdk \<Rightarrow> int \<Rightarrow> int \<Rightarrow> IncognitoWallet \<Rightarrow> PrivateTradeConfig \<Rightarrow> call list \<times> (thrown + UnshieldTransaction)" where
  "unshieldForTrading M chainId' now incognitoWallet config =
     (let startedAt = now in
      ([UnshieldTokens (address incognitoWallet) (token config) (amount config) chainId'],
       case UnshieldModule_unshieldTokens M (address incognitoWallet) (token config) (amount config) chainId' of
         Inr r \<Rightarrow>
           Inr \<lparr>u_txHash = txHash r, u_token = token config, u_amount = amount config,
                u_destinationAddress = address incognitoWallet,
                u_state = state r, u_startedAt = startedAt, u_completedAt = None, u_error = None\<rparr>
       | Inl e \<Rightarrow> Inl (Error (''Failed to unshield for trading: '' @ errorText e))))"

text \<open>The object returned from the \<open>catch\<close> block of \<open>checkPrivateFundsStatus\<close>.\<close>

definition errorStatus :: "int \<Rightarrow> thrown \<Rightarrow> PrivateFundsStatus" where
  "errorStatus now e =
     \<lparr>shieldedBalance = ''0'', incognitoBalance = ''0'', mainWalletBalance = ''0'',
      privacyPoolStatus = ERROR, isReady = False, transactionState = FAILED,
      error = Some (errorText e), lastUpdated = now\<rparr>"

text \<open>The object built in the \<open>try\<close> block once both balances are known.\<close>

definition readStatus :: "int \<Rightarrow> string \<Rightarrow> string \<Rightarrow> PrivateFundsStatus" where
  "readStatus now shieldedBalance' incognitoBalance' =
     (let mainWalletBalance' = ''0'';
          hasShieldedFunds = gtZero (parseFloat shieldedBalance');
          hasIncognitoFunds = gtZero (parseFloat incognitoBalance');
          isReady' = (hasShieldedFunds \<or> hasIncognitoFunds)
      in \<lparr>shieldedBalance = shieldedBalance', incognitoBalance = incognitoBalance',
           mainWalletBalance = mainWalletBalance',
           privacyPoolStatus = (if isReady' then READY else NOT_INITIALIZED),
           isReady = isReady', transactionState = IDLE, error = None, lastUpdated = now\<rparr>)"

text \<open>The \<open>try\<close> block: the incognito balance is read only after the shielded balance
  has been read without a throw.\<close>

definition checkPrivateFundsStatus_try ::
  "sdk \<Rightarrow> int \<Rightarrow> int \<Rightarrow> string \<Rightarrow> string \<Rightarrow> SupportedToken \<Rightarrow> call list \<times> (thrown + PrivateFundsStatus)" where
  "checkPrivateFundsStatus_try M chainId' now mainWalletAddress' incognitoAddress token' =
     (case ShieldModule_getShieldedBalance M mainWalletAddress' token' chainId' of
        Inl e \<Rightarrow> ([GetShieldedBalance mainWalletAddress' token' chainId'], Inl e)
      | Inr shieldedBalance' \<Rightarrow>
          ([GetShieldedBalance mainWalletAddress' token' chainId',
            GetIncognitoBalance incognitoAddress token' chainId'],
           case IncognitoModule_getIncognitoBalance M incognitoAddress token' chainId' of
             Inl e \<Rightarrow> Inl e
           | Inr incognitoBalance' \<Rightarrow> Inr (readStatus now shieldedBalance' incognitoBalance')))"

definition checkPrivateFundsStatus ::
  "sdk \<Rightarrow> int \<Rightarrow> int \<Rightarrow> string \<Rightarrow> string \<Rightarrow> SupportedToken \<Rightarrow> call list \<times> (thrown + PrivateFundsStatus)" where
  "checkPrivateFundsStatus M chainId' now mainWalletAddress' incognitoAddress token' =
     (case checkPrivateFundsStatus_try M chainId' now mainWalletAddress' incognitoAddress token' of
        (calls, Inr status) \<Rightarrow> (calls, Inr status)
      | (calls, Inl e) \<Rightarrow> (calls, Inr (errorStatus now e)))"

definition exitPrivatePosition ::
  "sdk \<Rightarrow> int \<Rightarrow> int \<Rightarrow> IncognitoWallet \<Rightarrow> PrivateTradeConfig \<Rightarrow> call list \<times> (thrown + ShieldTransaction)" where
  "exitPrivatePosition M chainId' now incognitoWallet config =
     (let startedAt = now in
      ([ShieldTokens (address incognitoWallet) (token config) (amount config) chainId'],
       case ShieldModule_shieldTokens M (address incognitoWallet) (token config) (amount config) chainId' of
         Inr r \<Rightarrow>
           Inr \<lparr>s_txHash = txHash r, s_token = token config, s_amount = amount config,
                s_state = state r, s_startedAt = startedAt, s_confirmedAt = None, s_error = None\<rparr>
       | Inl e \<Rightarrow> Inl (Error (''Failed to exit private position: '' @ errorText e))))"


subsection \<open>Waiting for a confirmation\<close>

text \<open>
  \<open>clock 0\<close> is the reading of the clock stored in \<open>startTime\<close>, and \<open>clock (Suc k)\<close> the
  reading in the loop condition when \<open>k\<close> status queries have been made; the pause after
  a query shows only in these readings.  \<open>poll k\<close> is the answer to the query that
  follows \<open>k\<close> earlier ones.  The loop may go on for ever (a clock that stands still
  while the status stays short of \<open>completed\<close> and \<open>failed\<close>): that is the value
  \<open>None\<close>.  A result comes with the number of queries made.
\<close>

partial_function (option) pollLoop ::
  "(nat \<Rightarrow> thrown + TransactionState) \<Rightarrow> (nat \<Rightarrow> int) \<Rightarrow> int \<Rightarrow> int \<Rightarrow> nat
     \<Rightarrow> (nat \<times> (thrown + TransactionState)) option" where
  "pollLoop poll clock startTime maxTime k =
     (if clock (Suc k) - startTime < maxTime then
        (case poll k of
           Inl e \<Rightarrow> Some (Suc k, Inl e)
         | Inr state' \<Rightarrow>
             if state' = COMPLETED then Some (Suc k, Inr state')
             else if state' = FAILED then Some (Suc k, Inl (Error ''Transaction failed''))
             else pollLoop poll clock startTime maxTime (Suc k))
      else Some (k, Inl (Error ''Transaction confirmation timeout'')))"

text \<open>\<^verbatim>\<open>maxWaitTime || this.DEFAULT_MAX_INDEXING_TIME\<close>, for a budget that is absent or a
  whole number of milliseconds.\<close>

definition effectiveMaxTime :: "int option \<Rightarrow> int" where
  "effectiveMaxTime maxWaitTime =
     (case maxWaitTime of
        None \<Rightarrow> DEFAULT_MAX_INDEXING_TIME
      | Some t \<Rightarrow> if t = 0 then DEFAULT_MAX_INDEXING_TIME else t)"

definition waitForTransactionConfirmation ::
  "sdk \<Rightarrow> (nat \<Rightarrow> int) \<Rightarrow> string \<Rightarrow> int option \<Rightarrow> (call list \<times> (thrown + TransactionState)) option" where
  "waitForTransactionConfirmation M clock txHash' maxWaitTime =
     (let maxTime = effectiveMaxTime maxWaitTime;
          startTime = clock 0
      in map_option (\<lambda>(n, r). (replicate n (GetTransactionStatus txHash'), r))
           (pollLoop (\<lambda>k. ShieldModule_getTransactionStatus M k txHash') clock startTime maxTime 0))"

section \<open>Predicates and fixtures used in the statements\<close>

text \<open>
  The first \<open>n\<close> rounds of the wait neither end it nor run out of time: each round
  starts within the budget and its status query answers with a state that is neither
  \<open>completed\<close> nor \<open>failed\<close>.
\<close>

definition stillPolling :: "(nat \<Rightarrow> thrown + TransactionState) \<Rightarrow> (nat \<Rightarrow> int) \<Rightarrow> int \<Rightarrow> nat \<Rightarrow> bool" where
  "stillPolling poll clock maxTime n =
     (\<forall>j<n. clock (Suc j) - clock 0 < maxTime \<and>
            (\<exists>s. poll j = Inr s \<and> s \<noteq> COMPLETED \<and> s \<noteq> FAILED))"

text \<open>
  Following the specification's words, "a strictly positive numeric string": the whole
  string is a decimal numeral (an optional sign, digits with an optional fraction, at
  least one digit, an optional exponent) and its value is above zero.
\<close>

definition dropSign :: "string \<Rightarrow> string" where
  "dropSign s = (case s of [] \<Rightarrow> [] | c # t \<Rightarrow> if c = CHR ''+'' \<or> c = CHR ''-'' then t else s)"

definition numericString :: "string \<Rightarrow> bool" where
  "numericString s =
     (let u = dropSign s;
          intDigits = takeWhile isDigit u;
          r1 = dropWhile isDigit u;
          hasPoint = (r1 \<noteq> [] \<and> hd r1 = CHR ''.'');
          fracDigits = (if hasPoint then takeWhile isDigit (tl r1) else []);
          r2 = (if hasPoint then dropWhile isDigit (tl r1) else r1)
      in (intDigits \<noteq> [] \<or> fracDigits \<noteq> []) \<and>
         (r2 = [] \<or>
          ((hd r2 = CHR ''e'' \<or> hd r2 = CHR ''E'') \<and> dropSign (tl r2) \<noteq> [] \<and>
           list_all isDigit (dropSign (tl r2)))))"

definition strictlyPositiveNumericString :: "string \<Rightarrow> bool" where
  "strictlyPositiveNumericString s = (numericString s \<and> gtZero (parseFloat s))"

text \<open>Modules whose balance reads answer with the given strings, as the tests of the
  service set them up.\<close>

definition balanceModules :: "string \<Rightarrow> string \<Rightarrow> sdk" where
  "balanceModules sb ib =
     (sourceModules [])
       \<lparr>ShieldModule_getShieldedBalance := (\<lambda>a t c. Inr sb),
        IncognitoModule_getIncognitoBalance := (\<lambda>a t c. Inr ib)\<rparr>"

text \<open>Modules whose status query gives \<open>answers k\<close> to the query after \<open>k\<close> earlier
  ones.\<close>

definition pollingModules :: "(nat \<Rightarrow> thrown + TransactionState) \<Rightarrow> sdk" where
  "pollingModules answers =
     (sourceModules []) \<lparr>ShieldModule_getTransactionStatus := (\<lambda>k h. answers k)\<rparr>"

text \<open>A clock that reads 0 at the start and at the first test of the loop, and 2000
  more at each later test.\<close>

definition testClock :: "nat \<Rightarrow> int" where
  "testClock k = 2000 * int (k - 1)"

text \<open>A clock that reads 0 at the start and 70000 at every test of the loop: the two
  first readings of \<open>Date.now()\<close> are 70 seconds apart.\<close>

definition jumpClock :: "nat \<Rightarrow> int" where
  "jumpClock k = (if k = 0 then 0 else 70000)"

text \<open>The trade configuration and the incognito wallet of the repository's tests.\<close>

definition testConfig :: "string \<Rightarrow> PrivateTradeConfig" where
  "testConfig amt =
     \<lparr>tradeType = ENTRY, token = USDC, amount = amt, slippageTolerance = 1 / 2,
      autoUnshield = Some True, maxIndexingTime = Some 70\<rparr>"

definition testWallet :: "string \<Rightarrow> string \<Rightarrow> IncognitoWallet" where
  "testWallet a m =
     \<lparr>address = a, mainWalletAddress = m, chainId = 1, isActive = True, createdAt = 0, label = None\<rparr>"

section \<open>Properties of the model\<close>

subsection \<open>Addresses and numbers\<close>

lemma matchAddress_iff:
  "matchAddress s \<longleftrightarrow> (\<exists>r. s = ''0x'' @ r \<and> length r = 40 \<and> (\<forall>c\<in>set r. isHexChar c))"
proof
  assume m: "matchAddress s"
  have "s = take 2 s @ drop 2 s" by simp
  with m have "s = ''0x'' @ drop 2 s" by (simp add: matchAddress_def)
  moreover from m have "length (drop 2 s) = 40" by (simp add: matchAddress_def)
  moreover from m have "\<forall>c\<in>set (drop 2 s). isHexChar c" by (simp add: matchAddress_def list_all_iff)
  ultimately show "\<exists>r. s = ''0x'' @ r \<and> length r = 40 \<and> (\<forall>c\<in>set r. isHexChar c)" by blast
next
  assume "\<exists>r. s = ''0x'' @ r \<and> length r = 40 \<and> (\<forall>c\<in>set r. isHexChar c)"
  then show "matchAddress s"
    by (auto simp: matchAddress_def list_all_iff)
qed

lemma valid_test_address: "matchAddress ''0x1234567890123456789012345678901234567890''"
  by (simp add: matchAddress_def isHexChar_def)

lemma valid_ones_address: "matchAddress ''0x1111111111111111111111111111111111111111''"
  by (simp add: matchAddress_def isHexChar_def)

lemma invalid_test_address: "\<not> matchAddress ''invalid''"
  by (simp add: matchAddress_def)


lemma halfMinDouble_pos: "0 < halfMinDouble"
  by (simp add: halfMinDouble_def)

lemma halfMinDouble_lt_1: "halfMinDouble < 1"
proof -
  have "(1::rat) < 2 ^ 1075" by (rule one_less_power) simp_all
  then show ?thesis by (simp add: halfMinDouble_def)
qed

lemma parse_10_USDC: "parseFloat ''10 USDC'' = Finite 10"
  by (simp add: parseFloat_def parseUnsigned_def isWhiteSpace_def isDigit_def digitsValue_def
      exponentOf_def scale10_def Let_def)

lemma parse_0: "parseFloat ''0'' = Finite 0"
  by (simp add: parseFloat_def parseUnsigned_def isWhiteSpace_def isDigit_def digitsValue_def
      exponentOf_def scale10_def Let_def)

lemma parse_abc: "parseFloat ''abc'' = NaN"
  by (simp add: parseFloat_def parseUnsigned_def isWhiteSpace_def isDigit_def digitsValue_def
      exponentOf_def scale10_def Let_def)

lemma parse_1000: "parseFloat ''1000'' = Finite 1000"
  by (simp add: parseFloat_def parseUnsigned_def isWhiteSpace_def isDigit_def digitsValue_def
      exponentOf_def scale10_def Let_def)

lemma leZero_10000: "\<not> leZero (parseFloat ''10000'')"
proof -
  have "parseFloat ''10000'' = Finite 10000"
    by (simp add: parseFloat_def parseUnsigned_def isWhiteSpace_def isDigit_def digitsValue_def
        exponentOf_def scale10_def Let_def)
  moreover have "\<not> (10000 :: rat) \<le> halfMinDouble" using halfMinDouble_lt_1 by simp
  ultimately show ?thesis by simp
qed

lemma not_numeric_10_USDC: "\<not> numericString ''10 USDC''"
  by (simp add: numericString_def dropSign_def isDigit_def Let_def)

text \<open>
  An amount that is empty, or that \<open>parseFloat\<close> reads as zero or as a negative
  number, is rejected with \<open>Invalid amount\<close>.
\<close>

lemma amount_rejected:
  assumes "matchAddress a"
    and "amt = [] \<or> parseFloat amt = NegInfinity \<or> (\<exists>q\<le>0. parseFloat amt = Finite q)"
  shows "shieldTokens rnd a t amt c = Inl (Error ''Invalid amount'')"
    and "unshieldTokens rnd a t amt c = Inl (Error ''Invalid amount'')"
proof -
  from assms(2) have "amt = [] \<or> leZero (parseFloat amt)"
    using halfMinDouble_pos by auto
  with assms(1) show "shieldTokens rnd a t amt c = Inl (Error ''Invalid amount'')"
    and "unshieldTokens rnd a t amt c = Inl (Error ''Invalid amount'')"
    by (auto simp: shieldTokens_def unshieldTokens_def matchAddress_def)
qed

subsection \<open>The hash of the address derivation\<close>

lemma digitChar_hex: "d < 16 \<Longrightarrow> digitChar d \<in> set ''0123456789abcdef''"
proof -
  assume "d < 16"
  then have "d = 0 \<or> d = 1 \<or> d = 2 \<or> d = 3 \<or> d = 4 \<or> d = 5 \<or> d = 6 \<or> d = 7 \<or> d = 8
      \<or> d = 9 \<or> d = 10 \<or> d = 11 \<or> d = 12 \<or> d = 13 \<or> d = 14 \<or> d = 15"
    by presburger
  then show ?thesis by (auto simp: digitChar_def)
qed

lemma toStringRadix_16_chars: "set (toStringRadix 16 n) \<subseteq> set ''0123456789abcdef''"
proof (induction n rule: less_induct)
  case (less n)
  show ?case
  proof (cases "n < 16")
    case True
    then show ?thesis using digitChar_hex [of n] by (simp add: toStringRadix.simps [of 16 n])
  next
    case False
    then have "n div 16 < n" by simp
    from less.IH [OF this] digitChar_hex [of "n mod 16"] False show ?thesis
      by (simp add: toStringRadix.simps [of 16 n])
  qed
qed

lemma toStringRadix_16_length: "0 < k \<Longrightarrow> n < 16 ^ k \<Longrightarrow> length (toStringRadix 16 n) \<le> k"
proof (induction k arbitrary: n)
  case 0
  then show ?case by simp
next
  case (Suc k)
  show ?case
  proof (cases "n < 16")
    case True
    then show ?thesis by (simp add: toStringRadix.simps [of 16 n])
  next
    case False
    with Suc.prems have k: "0 < k" by (cases k) auto
    from Suc.prems have "n div 16 < 16 ^ k"
      by (simp add: less_mult_imp_div_less mult.commute)
    from Suc.IH [OF k this] False show ?thesis by (simp add: toStringRadix.simps [of 16 n])
  qed
qed

lemma abs_sint_32: "nat \<bar>sint (w :: 32 word)\<bar> < 16 ^ 8"
proof -
  have "- (2 ^ 31) \<le> sint w" "sint w < 2 ^ 31"
    using sint_ge [of w] sint_lt [of w] by simp_all
  then show ?thesis by simp
qed

lemma hexHash_shape:
  fixes w :: "32 word"
  defines "h \<equiv> padStart 8 CHR ''0'' (toStringRadix 16 (nat \<bar>sint w\<bar>))"
  shows "length h = 8" and "set h \<subseteq> set ''0123456789abcdef''"
proof -
  have len: "length (toStringRadix 16 (nat \<bar>sint w\<bar>)) \<le> 8"
    by (rule toStringRadix_16_length [OF _ abs_sint_32]) simp
  then show "length h = 8" by (simp add: h_def padStart_def)
  have "set (replicate (8 - length (toStringRadix 16 (nat \<bar>sint w\<bar>))) CHR ''0'') \<subseteq> set ''0123456789abcdef''"
    by (cases "8 - length (toStringRadix 16 (nat \<bar>sint w\<bar>)) = 0") auto
  with toStringRadix_16_chars [of "nat \<bar>sint w\<bar>"]
  show "set h \<subseteq> set ''0123456789abcdef''"
    unfolding h_def padStart_def set_append by blast
qed

lemma simpleHash_unfold:
  "simpleHash input =
     (\<lambda>h. h @ h @ h @ h @ h) (padStart 8 CHR ''0'' (toStringRadix 16 (nat \<bar>sint (foldl hashStep 0 input)\<bar>)))"
proof -
  have "length (padStart 8 CHR ''0'' (toStringRadix 16 (nat \<bar>sint (foldl hashStep 0 input)\<bar>))) = 8"
    by (rule hexHash_shape)
  then show ?thesis by (simp add: simpleHash_def Let_def)
qed

lemma deriveIncognitoAddress_eval:
  assumes "matchAddress a"
    and "foldl hashStep 0 (a @ numberToString c) = w"
    and "padStart 8 CHR ''0'' (toStringRadix 16 (nat \<bar>sint w\<bar>)) = h"
  shows "deriveIncognitoAddress a c = Inr (''0x'' @ h @ h @ h @ h @ h)"
proof -
  have "length h = 8" using hexHash_shape(1) [of w] assms(3) by simp
  moreover from assms(1) have "a \<noteq> []" by (auto simp: matchAddress_def)
  ultimately show ?thesis
    using assms by (simp add: deriveIncognitoAddress_def simpleHash_unfold)
qed

subsection \<open>The polling loop\<close>



lemma pollLoop_skip:
  "stillPolling poll clock maxTime n \<Longrightarrow>
   pollLoop poll clock (clock 0) maxTime 0 = pollLoop poll clock (clock 0) maxTime n"
proof (induction n)
  case 0
  show ?case by simp
next
  case (Suc n)
  from Suc.prems have sp: "stillPolling poll clock maxTime n"
    and t: "clock (Suc n) - clock 0 < maxTime"
    and s: "\<exists>s. poll n = Inr s \<and> s \<noteq> COMPLETED \<and> s \<noteq> FAILED"
    by (simp_all add: stillPolling_def)
  from s t have "pollLoop poll clock (clock 0) maxTime n = pollLoop poll clock (clock 0) maxTime (Suc n)"
    by (subst pollLoop.simps) auto
  with Suc.IH [OF sp] show ?case by simp
qed

lemma pollLoop_timeout:
  "\<not> clock (Suc n) - startTime < maxTime \<Longrightarrow>
   pollLoop poll clock startTime maxTime n = Some (n, Inl (Error ''Transaction confirmation timeout''))"
  by (subst pollLoop.simps) simp

lemma pollLoop_completed:
  "clock (Suc n) - startTime < maxTime \<Longrightarrow> poll n = Inr COMPLETED \<Longrightarrow>
   pollLoop poll clock startTime maxTime n = Some (Suc n, Inr COMPLETED)"
  by (subst pollLoop.simps) simp

lemma pollLoop_failed:
  "clock (Suc n) - startTime < maxTime \<Longrightarrow> poll n = Inr FAILED \<Longrightarrow>
   pollLoop poll clock startTime maxTime n = Some (Suc n, Inl (Error ''Transaction failed''))"
  by (subst pollLoop.simps) simp

lemma pollLoop_throws:
  "clock (Suc n) - startTime < maxTime \<Longrightarrow> poll n = Inl e \<Longrightarrow>
   pollLoop poll clock startTime maxTime n = Some (Suc n, Inl e)"
  by (subst pollLoop.simps) simp


lemma pollLoop_count:
  assumes "pollLoop poll clock startTime maxTime k = Some y"
  shows "k \<le> fst y"
proof (rule pollLoop.raw_induct [where P = "\<lambda>poll clock startTime maxTime k y. k \<le> fst y", OF _ assms])
  fix f :: "(nat \<Rightarrow> thrown + TransactionState) \<Rightarrow> (nat \<Rightarrow> int) \<Rightarrow> int \<Rightarrow> int \<Rightarrow> nat
     \<Rightarrow> (nat \<times> (thrown + TransactionState)) option"
  fix poll clock startTime maxTime k y
  assume IH: "\<And>poll clock startTime maxTime k y. f poll clock startTime maxTime k = Some y \<Longrightarrow> k \<le> fst y"
  assume body: "(if clock (Suc k) - startTime < maxTime then
        (case poll k of
           Inl e \<Rightarrow> Some (Suc k, Inl e)
         | Inr state' \<Rightarrow>
             if state' = COMPLETED then Some (Suc k, Inr state')
             else if state' = FAILED then Some (Suc k, Inl (Error ''Transaction failed''))
             else f poll clock startTime maxTime (Suc k))
      else Some (k, Inl (Error ''Transaction confirmation timeout''))) = Some y"
  show "k \<le> fst y"
  proof (cases "clock (Suc k) - startTime < maxTime")
    case False
    with body show ?thesis by auto
  next
    case True
    show ?thesis
    proof (cases "poll k")
      case (Inl e)
      with True body show ?thesis by auto
    next
      case (Inr s)
      show ?thesis
      proof (cases "s = COMPLETED \<or> s = FAILED")
        case True
        with \<open>clock (Suc k) - startTime < maxTime\<close> Inr body show ?thesis by auto
      next
        case False
        with \<open>clock (Suc k) - startTime < maxTime\<close> Inr body
        have "f poll clock startTime maxTime (Suc k) = Some y" by simp
        then have "Suc k \<le> fst y" by (rule IH)
        then show ?thesis by simp
      qed
    qed
  qed
qed

lemma pollLoop_first_poll:
  assumes "clock (Suc 0) - startTime < maxTime"
    and "pollLoop poll clock startTime maxTime 0 = Some y"
  shows "0 < fst y"
proof (cases "poll 0")
  case (Inl e)
  with assms show ?thesis by (auto simp: pollLoop_throws)
next
  case (Inr s)
  show ?thesis
  proof (cases "s = COMPLETED \<or> s = FAILED")
    case True
    with assms Inr show ?thesis by (auto simp: pollLoop_completed pollLoop_failed)
  next
    case False
    with assms(1) Inr have "pollLoop poll clock startTime maxTime 0 = pollLoop poll clock startTime maxTime (Suc 0)"
      by (subst pollLoop.simps) simp
    with assms(2) have "Suc 0 \<le> fst y" by (simp add: pollLoop_count)
    then show ?thesis by simp
  qed
qed




subsection \<open>Agreement with the tests of the repository\<close>

text \<open>
  The unit tests of the three modules give the same answers on the model.
\<close>

lemma tests_isValidIncognitoAddress:
  "isValidIncognitoAddress ''0x1234567890123456789012345678901234567890''"
  "\<not> isValidIncognitoAddress ''invalid''"
  "\<not> isValidIncognitoAddress ''''"
  "\<not> isValidIncognitoAddress ''1234567890123456789012345678901234567890''"
  "\<not> isValidIncognitoAddress ''0x123''"
  "\<not> isValidIncognitoAddress ''0x12345678901234567890123456789012345678901''"
  "\<not> isValidIncognitoAddress ''0x123456789012345678901234567890123456789g''"
  by (simp_all add: isValidIncognitoAddress_def matchAddress_def isHexChar_def)

lemma tests_amounts:
  "shieldTokens rnd ''0x1234567890123456789012345678901234567890'' USDC ''0'' 1 = Inl (Error ''Invalid amount'')"
  "shieldTokens rnd ''0x1234567890123456789012345678901234567890'' USDC ''-100'' 1 = Inl (Error ''Invalid amount'')"
  "shieldTokens rnd ''0x1234567890123456789012345678901234567890'' USDC '''' 1 = Inl (Error ''Invalid amount'')"
  "unshieldTokens rnd ''0x1234567890123456789012345678901234567890'' WETH ''0'' 1 = Inl (Error ''Invalid amount'')"
  "unshieldTokens rnd ''0x1234567890123456789012345678901234567890'' WETH ''-10'' 1 = Inl (Error ''Invalid amount'')"
  "unshieldTokens rnd ''0x1234567890123456789012345678901234567890'' WETH '''' 1 = Inl (Error ''Invalid amount'')"
proof -
  have m100: "parseFloat ''-100'' = Finite (- 100)" and m10: "parseFloat ''-10'' = Finite (- 10)"
    by (simp_all add: parseFloat_def parseUnsigned_def isWhiteSpace_def isDigit_def digitsValue_def
        exponentOf_def scale10_def Let_def)
  show "shieldTokens rnd ''0x1234567890123456789012345678901234567890'' USDC ''0'' 1 = Inl (Error ''Invalid amount'')"
    by (rule amount_rejected(1) [OF valid_test_address]) (simp add: parse_0)
  show "shieldTokens rnd ''0x1234567890123456789012345678901234567890'' USDC ''-100'' 1 = Inl (Error ''Invalid amount'')"
    by (rule amount_rejected(1) [OF valid_test_address]) (simp add: m100)
  show "shieldTokens rnd ''0x1234567890123456789012345678901234567890'' USDC '''' 1 = Inl (Error ''Invalid amount'')"
    by (rule amount_rejected(1) [OF valid_test_address]) simp
  show "unshieldTokens rnd ''0x1234567890123456789012345678901234567890'' WETH ''0'' 1 = Inl (Error ''Invalid amount'')"
    by (rule amount_rejected(2) [OF valid_test_address]) (simp add: parse_0)
  show "unshieldTokens rnd ''0x1234567890123456789012345678901234567890'' WETH ''-10'' 1 = Inl (Error ''Invalid amount'')"
    by (rule amount_rejected(2) [OF valid_test_address]) (simp add: m10)
  show "unshieldTokens rnd ''0x1234567890123456789012345678901234567890'' WETH '''' 1 = Inl (Error ''Invalid amount'')"
    by (rule amount_rejected(2) [OF valid_test_address]) simp
qed

lemma tests_getTransactionStatus:
  "getTransactionStatus ''0xabcdef1234567890abcdef1234567890abcdef1234567890abcdef1234567890'' = Inr COMPLETED"
  "getTransactionStatus ''invalid'' = Inl (Error ''Invalid transaction hash'')"
  "getTransactionStatus ''0xabc'' = Inl (Error ''Invalid transaction hash'')"
  "getTransactionStatus '''' = Inl (Error ''Invalid transaction hash'')"
  by (simp_all add: getTransactionStatus_def matchTxHash_def isHexChar_def)

lemma tests_deriveIncognitoAddress:
  "deriveIncognitoAddress ''0x1234567890123456789012345678901234567890'' 137
     = Inr ''0x33c98ba133c98ba133c98ba133c98ba133c98ba1''"
  "deriveIncognitoAddress ''0x9876543210987654321098765432109876543210'' 1
     = Inr ''0x61aedc7d61aedc7d61aedc7d61aedc7d61aedc7d''"
proof -
  have m: "matchAddress ''0x9876543210987654321098765432109876543210''"
    by (simp add: matchAddress_def isHexChar_def)
  have x1: "padStart 8 CHR ''0'' (toStringRadix 16 (nat \<bar>sint (868846497 :: 32 word)\<bar>)) = ''33c98ba1''"
    by (simp add: padStart_def digitChar_def toStringRadix.simps)
  have x2: "padStart 8 CHR ''0'' (toStringRadix 16 (nat \<bar>sint (1638849661 :: 32 word)\<bar>)) = ''61aedc7d''"
    by (simp add: padStart_def digitChar_def toStringRadix.simps)
  have "deriveIncognitoAddress ''0x1234567890123456789012345678901234567890'' 137
     = Inr (''0x'' @ ''33c98ba1'' @ ''33c98ba1'' @ ''33c98ba1'' @ ''33c98ba1'' @ ''33c98ba1'')"
    by (rule deriveIncognitoAddress_eval [OF valid_test_address _ x1])
      (simp add: hashStep_def numberToString_def digitChar_def toStringRadix.simps)
  then show "deriveIncognitoAddress ''0x1234567890123456789012345678901234567890'' 137
     = Inr ''0x33c98ba133c98ba133c98ba133c98ba133c98ba1''" by simp
  have "deriveIncognitoAddress ''0x9876543210987654321098765432109876543210'' 1
     = Inr (''0x'' @ ''61aedc7d'' @ ''61aedc7d'' @ ''61aedc7d'' @ ''61aedc7d'' @ ''61aedc7d'')"
    by (rule deriveIncognitoAddress_eval [OF m _ x2])
      (simp add: hashStep_def numberToString_def digitChar_def toStringRadix.simps)
  then show "deriveIncognitoAddress ''0x9876543210987654321098765432109876543210'' 1
     = Inr ''0x61aedc7d61aedc7d61aedc7d61aedc7d61aedc7d''" by simp
qed

section \<open>The claims\<close>

subsection \<open>Status checks\<close>



text \<open>
  Claim C3, amended.  When both balance reads succeed, the status returned carries the
  two balances, \<open>isReady\<close> is true exactly when \<open>parseFloat\<close> of the shielded balance or
  of the incognito balance is greater than zero, and \<open>privacyPoolStatus\<close> is \<open>READY\<close>
  when \<open>isReady\<close> holds and \<open>NOT_INITIALIZED\<close> otherwise.  Since \<open>parseFloat\<close> reads a
  numeric prefix and ignores what follows it, \<open>isReady\<close> does not require a balance that
  is a numeric string as a whole.
\<close>

theorem readiness_rule:
  assumes "ShieldModule_getShieldedBalance M main t c = Inr sb"
    and "IncognitoModule_getIncognitoBalance M inc t c = Inr ib"
  shows "\<exists>s. snd (checkPrivateFundsStatus M c now main inc t) = Inr s \<and>
           shieldedBalance s = sb \<and> incognitoBalance s = ib \<and>
           isReady s = (gtZero (parseFloat sb) \<or> gtZero (parseFloat ib)) \<and>
           (privacyPoolStatus s = READY \<longleftrightarrow> isReady s) \<and>
           (privacyPoolStatus s = NOT_INITIALIZED \<longleftrightarrow> \<not> isReady s)"
  using assms
  by (simp add: checkPrivateFundsStatus_def checkPrivateFundsStatus_try_def readStatus_def Let_def)

text \<open>
  C3 at the balances \<open>1000\<close> (shielded) and \<open>0\<close> (incognito): ready.
\<close>

theorem readiness_rule_witness:
  "ShieldModule_getShieldedBalance (balanceModules ''1000'' ''0'') ''0x1234567890123456789012345678901234567890'' USDC 1 = Inr ''1000'' \<and>
   IncognitoModule_getIncognitoBalance (balanceModules ''1000'' ''0'') ''0x1111111111111111111111111111111111111111'' USDC 1 = Inr ''0'' \<and>
   (\<exists>s. snd (checkPrivateFundsStatus (balanceModules ''1000'' ''0'') 1 0
               ''0x1234567890123456789012345678901234567890''
               ''0x1111111111111111111111111111111111111111'' USDC) = Inr s \<and>
        isReady s = True \<and> privacyPoolStatus s = READY)"
proof -
  have h1: "ShieldModule_getShieldedBalance (balanceModules ''1000'' ''0'') ''0x1234567890123456789012345678901234567890'' USDC 1 = Inr ''1000''"
    by (simp add: balanceModules_def)
  have h2: "IncognitoModule_getIncognitoBalance (balanceModules ''1000'' ''0'') ''0x1111111111111111111111111111111111111111'' USDC 1 = Inr ''0''"
    by (simp add: balanceModules_def)
  have g: "gtZero (parseFloat ''1000'')" using halfMinDouble_lt_1 by (simp add: parse_1000)
  from readiness_rule [OF h1 h2, of 0] g h1 h2 show ?thesis by auto
qed

text \<open>
  Counterexample to C3 as stated ("isReady is true only when at least one of the two
  balances is a strictly positive numeric string"): with the shielded balance
  \<open>10 USDC\<close> and the incognito balance \<open>0\<close> the status is ready, and neither balance
  is a strictly positive numeric string.
\<close>

theorem readiness_non_numeric_balance:
  "snd (checkPrivateFundsStatus (balanceModules ''10 USDC'' ''0'') 1 0
          ''0x1234567890123456789012345678901234567890''
          ''0x1111111111111111111111111111111111111111'' USDC)
     = Inr \<lparr>shieldedBalance = ''10 USDC'', incognitoBalance = ''0'', mainWalletBalance = ''0'',
            privacyPoolStatus = READY, isReady = True, transactionState = IDLE,
            error = None, lastUpdated = 0\<rparr> \<and>
   \<not> strictlyPositiveNumericString ''10 USDC'' \<and>
   \<not> strictlyPositiveNumericString ''0''"
proof -
  have "gtZero (parseFloat ''10 USDC'')" using halfMinDouble_lt_1 by (simp add: parse_10_USDC)
  moreover have "\<not> gtZero (parseFloat ''0'')" using halfMinDouble_pos by (simp add: parse_0)
  ultimately show ?thesis
    by (simp add: checkPrivateFundsStatus_def checkPrivateFundsStatus_try_def readStatus_def
        balanceModules_def strictlyPositiveNumericString_def not_numeric_10_USDC)
qed

text \<open>
  Claim C10.  When both balance reads succeed, the status returned has
  \<open>mainWalletBalance\<close> equal to the string \<open>0\<close> and \<open>transactionState\<close> equal to
  \<open>IDLE\<close>, whatever the inputs and the balances read.
\<close>

theorem main_wallet_balance_constant:
  assumes "ShieldModule_getShieldedBalance M main t c = Inr sb"
    and "IncognitoModule_getIncognitoBalance M inc t c = Inr ib"
  shows "\<exists>s. snd (checkPrivateFundsStatus M c now main inc t) = Inr s \<and>
           mainWalletBalance s = ''0'' \<and> transactionState s = IDLE"
  using assms
  by (simp add: checkPrivateFundsStatus_def checkPrivateFundsStatus_try_def readStatus_def Let_def)

text \<open>
  C10 at the balances \<open>1000\<close> and \<open>500\<close>.
\<close>

theorem main_wallet_balance_constant_witness:
  "ShieldModule_getShieldedBalance (balanceModules ''1000'' ''500'') ''0x1234567890123456789012345678901234567890'' USDC 1 = Inr ''1000'' \<and>
   IncognitoModule_getIncognitoBalance (balanceModules ''1000'' ''500'') ''0x1111111111111111111111111111111111111111'' USDC 1 = Inr ''500'' \<and>
   (\<exists>s. snd (checkPrivateFundsStatus (balanceModules ''1000'' ''500'') 1 0
               ''0x1234567890123456789012345678901234567890''
               ''0x1111111111111111111111111111111111111111'' USDC) = Inr s \<and>
        mainWalletBalance s = ''0'' \<and> transactionState s = IDLE)"
proof -
  have h1: "ShieldModule_getShieldedBalance (balanceModules ''1000'' ''500'') ''0x1234567890123456789012345678901234567890'' USDC 1 = Inr ''1000''"
    by (simp add: balanceModules_def)
  have h2: "IncognitoModule_getIncognitoBalance (balanceModules ''1000'' ''500'') ''0x1111111111111111111111111111111111111111'' USDC 1 = Inr ''500''"
    by (simp add: balanceModules_def)
  from h1 h2 main_wallet_balance_constant [OF h1 h2, of 0] show ?thesis by simp
qed

subsection \<open>Waiting for a confirmation\<close>




text \<open>
  Claim C9, amended.  When \<open>maxWaitTime\<close> is omitted or equal to 0, the budget in effect
  is the default of 70000 ms and the call behaves as with \<open>maxWaitTime = 70000\<close>, so a
  budget of zero cannot be asked for.  The loop tests the clock before its first status
  query: when that first test reads the clock less than 70000 ms after the start, every
  result of the call, a timeout included, comes after at least one status query; when it
  reads 70000 ms or more, the call throws the timeout without any status query.
\<close>

theorem default_wait_budget:
  assumes "maxWaitTime = None \<or> maxWaitTime = Some 0"
  shows "effectiveMaxTime maxWaitTime = 70000 \<and>
         waitForTransactionConfirmation M clock h maxWaitTime
           = waitForTransactionConfirmation M clock h (Some 70000) \<and>
         (clock (Suc 0) - clock 0 < 70000 \<longrightarrow>
            (\<forall>calls r. waitForTransactionConfirmation M clock h maxWaitTime = Some (calls, r)
               \<longrightarrow> calls \<noteq> [] \<and> hd calls = GetTransactionStatus h)) \<and>
         (\<not> clock (Suc 0) - clock 0 < 70000 \<longrightarrow>
            waitForTransactionConfirmation M clock h maxWaitTime
              = Some ([], Inl (Error ''Transaction confirmation timeout'')))"
proof -
  from assms have e: "effectiveMaxTime maxWaitTime = 70000"
    by (auto simp: effectiveMaxTime_def DEFAULT_MAX_INDEXING_TIME_def)
  have e': "effectiveMaxTime (Some 70000) = 70000"
    by (simp add: effectiveMaxTime_def)
  have same: "waitForTransactionConfirmation M clock h maxWaitTime
           = waitForTransactionConfirmation M clock h (Some 70000)"
    by (simp add: waitForTransactionConfirmation_def e e')
  have polls: "calls \<noteq> [] \<and> hd calls = GetTransactionStatus h"
    if t: "clock (Suc 0) - clock 0 < 70000"
      and w: "waitForTransactionConfirmation M clock h maxWaitTime = Some (calls, r)"
    for calls r
  proof -
    from w obtain n where y: "pollLoop (\<lambda>k. ShieldModule_getTransactionStatus M k h) clock (clock 0) 70000 0 = Some (n, r)"
      and c: "calls = replicate n (GetTransactionStatus h)"
      by (auto simp: waitForTransactionConfirmation_def e Let_def)
    from pollLoop_first_poll [OF t y] have "0 < n" by simp
    with c show ?thesis by (cases n) simp_all
  qed
  have none: "waitForTransactionConfirmation M clock h maxWaitTime
              = Some ([], Inl (Error ''Transaction confirmation timeout''))"
    if "\<not> clock (Suc 0) - clock 0 < 70000"
    using that by (simp add: waitForTransactionConfirmation_def e pollLoop_timeout)
  from e same polls none show ?thesis by blast
qed

text \<open>
  C9 at \<open>maxWaitTime = 0\<close> and a status that stays \<open>pending\<close>, on a clock that advances
  by 2000 ms per round: the timeout comes after 35 queries.
\<close>

theorem default_wait_budget_witness:
  "effectiveMaxTime (Some 0) = 70000 \<and>
   testClock (Suc 0) - testClock 0 < 70000 \<and>
   waitForTransactionConfirmation (pollingModules (\<lambda>k. Inr PENDING)) testClock ''0xabc123'' (Some 0)
     = Some (replicate 35 (GetTransactionStatus ''0xabc123''),
             Inl (Error ''Transaction confirmation timeout'')) \<and>
   replicate 35 (GetTransactionStatus ''0xabc123'') \<noteq> [] \<and>
   hd (replicate 35 (GetTransactionStatus ''0xabc123'')) = GetTransactionStatus ''0xabc123''"
proof -
  have h: "Some (0::int) = None \<or> Some (0::int) = Some 0" by simp
  have t: "testClock (Suc 0) - testClock 0 < 70000" by (simp add: testClock_def)
  have sp: "stillPolling (\<lambda>k. ShieldModule_getTransactionStatus (pollingModules (\<lambda>k. Inr PENDING)) k ''0xabc123'')
      testClock 70000 35"
    by (simp add: stillPolling_def pollingModules_def testClock_def)
  have out: "\<not> testClock (Suc 35) - testClock 0 < 70000" by (simp add: testClock_def)
  have "pollLoop (\<lambda>k. ShieldModule_getTransactionStatus (pollingModules (\<lambda>k. Inr PENDING)) k ''0xabc123'')
      testClock (testClock 0) 70000 0 = Some (35, Inl (Error ''Transaction confirmation timeout''))"
    using pollLoop_skip [OF sp] out by (simp add: pollLoop_timeout)
  then have w: "waitForTransactionConfirmation (pollingModules (\<lambda>k. Inr PENDING)) testClock ''0xabc123'' (Some 70000)
     = Some (replicate 35 (GetTransactionStatus ''0xabc123''), Inl (Error ''Transaction confirmation timeout''))"
    by (simp add: waitForTransactionConfirmation_def effectiveMaxTime_def)
  from default_wait_budget [OF h, of "pollingModules (\<lambda>k. Inr PENDING)" testClock "''0xabc123''"] t w
  show ?thesis by simp
qed

text \<open>
  Counterexample to C9 as stated ("at least one status poll is performed before any
  timeout"): when the first test of the loop reads the clock 70000 ms after the start,
  the call with \<open>maxWaitTime\<close> omitted, and the call with \<open>maxWaitTime = 0\<close>, throw the
  timeout after no status query at all.
\<close>

theorem default_wait_no_poll:
  "jumpClock (Suc 0) - jumpClock 0 = 70000 \<and>
   waitForTransactionConfirmation (pollingModules (\<lambda>k. Inr PENDING)) jumpClock ''0xabc123'' None
     = Some ([], Inl (Error ''Transaction confirmation timeout'')) \<and>
   waitForTransactionConfirmation (pollingModules (\<lambda>k. Inr PENDING)) jumpClock ''0xabc123'' (Some 0)
     = Some ([], Inl (Error ''Transaction confirmation timeout''))"
proof -
  have out: "\<not> jumpClock (Suc 0) - jumpClock 0 < 70000" by (simp add: jumpClock_def)
  have "pollLoop (\<lambda>k. ShieldModule_getTransactionStatus (pollingModules (\<lambda>k. Inr PENDING)) k ''0xabc123'')
      jumpClock (jumpClock 0) 70000 0 = Some (0, Inl (Error ''Transaction confirmation timeout''))"
    using out by (rule pollLoop_timeout)
  then show ?thesis
    by (simp add: waitForTransactionConfirmation_def effectiveMaxTime_def
        DEFAULT_MAX_INDEXING_TIME_def jumpClock_def)
qed

subsection \<open>Address derivation\<close>

text \<open>
  Claim C4, amended.  For every address of the 20-byte hex shape and every network id
  that is a safe integer, \<open>deriveIncognitoAddress\<close> returns \<open>0x\<close> followed by \<open>simpleHash\<close> of the
  address and the decimal network id (a function of the two inputs alone, so equal inputs
  give equal outputs), and that output is \<open>0x\<close> followed by five copies of one block of
  eight lower-case hex digits, hence itself of the 20-byte hex shape.  Nothing is
  promised about the output differing from the address or from the output for other
  inputs.
\<close>

theorem derivation_contract:
  assumes "matchAddress a" and "isSafeInteger c"
  shows "\<exists>h. length h = 8 \<and> set h \<subseteq> set ''0123456789abcdef'' \<and>
           deriveIncognitoAddress a c = Inr (''0x'' @ h @ h @ h @ h @ h) \<and>
           matchAddress (''0x'' @ h @ h @ h @ h @ h) \<and>
           deriveIncognitoAddress a c = Inr (''0x'' @ simpleHash (a @ numberToString c))"
proof -
  define h where "h = padStart 8 CHR ''0'' (toStringRadix 16 (nat \<bar>sint (foldl hashStep 0 (a @ numberToString c))\<bar>))"
  have len: "length h = 8" and chars: "set h \<subseteq> set ''0123456789abcdef''"
    unfolding h_def by (rule hexHash_shape)+
  have d: "deriveIncognitoAddress a c = Inr (''0x'' @ h @ h @ h @ h @ h)"
    using assms(1) by (rule deriveIncognitoAddress_eval) (simp_all add: h_def)
  have "set ''0123456789abcdef'' \<subseteq> {c. isHexChar c}"
    by (simp add: isHexChar_def)
  with chars have "\<forall>c\<in>set h. isHexChar c" by blast
  with len have m: "matchAddress (''0x'' @ h @ h @ h @ h @ h)"
    by (simp add: matchAddress_def list_all_iff)
  have "simpleHash (a @ numberToString c) = h @ h @ h @ h @ h"
    by (simp add: simpleHash_unfold h_def)
  with len chars d m show ?thesis by auto
qed

text \<open>
  C4 at the address of the repository's tests on network 1.
\<close>

theorem derivation_contract_witness:
  "matchAddress ''0x1234567890123456789012345678901234567890'' \<and> isSafeInteger 1 \<and>
   deriveIncognitoAddress ''0x1234567890123456789012345678901234567890'' 1
     = Inr ''0x1e0c4f831e0c4f831e0c4f831e0c4f831e0c4f83'' \<and>
   matchAddress ''0x1e0c4f831e0c4f831e0c4f831e0c4f831e0c4f83''"
proof -
  have e: "deriveIncognitoAddress ''0x1234567890123456789012345678901234567890'' 1
     = Inr (''0x'' @ ''1e0c4f83'' @ ''1e0c4f83'' @ ''1e0c4f83'' @ ''1e0c4f83'' @ ''1e0c4f83'')"
  proof (rule deriveIncognitoAddress_eval [OF valid_test_address])
    show "foldl hashStep 0 (''0x1234567890123456789012345678901234567890'' @ numberToString 1) = 3790844029"
      by (simp add: hashStep_def numberToString_def digitChar_def toStringRadix.simps)
    show "padStart 8 CHR ''0'' (toStringRadix 16 (nat \<bar>sint (3790844029 :: 32 word)\<bar>)) = ''1e0c4f83''"
      by (simp add: padStart_def digitChar_def toStringRadix.simps)
  qed
  have safe: "isSafeInteger 1" by (simp add: isSafeInteger_def)
  from derivation_contract [OF valid_test_address safe] obtain h where
    "deriveIncognitoAddress ''0x1234567890123456789012345678901234567890'' 1 = Inr (''0x'' @ h @ h @ h @ h @ h)"
    "matchAddress (''0x'' @ h @ h @ h @ h @ h)" by blast
  with e valid_test_address safe show ?thesis by simp
qed

text \<open>
  Counterexample to C4 as stated: two different addresses with the same output on
  network 1; one address with the same output on two different networks; and an address
  whose output on network 823268356 is the address itself.  The network ids are safe
  integers.
\<close>

theorem derivation_collides:
  "''0x0a00000000000000000000000000000000000000'' \<noteq> ''0x1B00000000000000000000000000000000000000'' \<and>
   matchAddress ''0x0a00000000000000000000000000000000000000'' \<and>
   matchAddress ''0x1B00000000000000000000000000000000000000'' \<and>
   deriveIncognitoAddress ''0x0a00000000000000000000000000000000000000'' 1
     = Inr ''0x6d53b2686d53b2686d53b2686d53b2686d53b268'' \<and>
   deriveIncognitoAddress ''0x1B00000000000000000000000000000000000000'' 1
     = Inr ''0x6d53b2686d53b2686d53b2686d53b2686d53b268'' \<and>
   (9186836626 :: int) \<noteq> 3205549386 \<and>
   isSafeInteger 1 \<and> isSafeInteger 9186836626 \<and> isSafeInteger 3205549386 \<and>
   isSafeInteger 823268356 \<and>
   deriveIncognitoAddress ''0x1111111111111111111111111111111111111111'' 9186836626
     = Inr ''0x4f397cdd4f397cdd4f397cdd4f397cdd4f397cdd'' \<and>
   deriveIncognitoAddress ''0x1111111111111111111111111111111111111111'' 3205549386
     = Inr ''0x4f397cdd4f397cdd4f397cdd4f397cdd4f397cdd'' \<and>
   deriveIncognitoAddress ''0x1111111111111111111111111111111111111111'' 823268356
     = Inr ''0x1111111111111111111111111111111111111111''"
proof -
  have m1: "matchAddress ''0x0a00000000000000000000000000000000000000''"
    and m2: "matchAddress ''0x1B00000000000000000000000000000000000000''"
    by (simp_all add: matchAddress_def isHexChar_def)
  have x1: "padStart 8 CHR ''0'' (toStringRadix 16 (nat \<bar>sint (2460765592 :: 32 word)\<bar>)) = ''6d53b268''"
    by (simp add: padStart_def digitChar_def toStringRadix.simps)
  have x2: "padStart 8 CHR ''0'' (toStringRadix 16 (nat \<bar>sint (1329167581 :: 32 word)\<bar>)) = ''4f397cdd''"
    by (simp add: padStart_def digitChar_def toStringRadix.simps)
  have x4: "padStart 8 CHR ''0'' (toStringRadix 16 (nat \<bar>sint (2965799715 :: 32 word)\<bar>)) = ''4f397cdd''"
    by (simp add: padStart_def digitChar_def toStringRadix.simps)
  have x3: "padStart 8 CHR ''0'' (toStringRadix 16 (nat \<bar>sint (286331153 :: 32 word)\<bar>)) = ''11111111''"
    by (simp add: padStart_def digitChar_def toStringRadix.simps)
  have d1: "deriveIncognitoAddress ''0x0a00000000000000000000000000000000000000'' 1
     = Inr (''0x'' @ ''6d53b268'' @ ''6d53b268'' @ ''6d53b268'' @ ''6d53b268'' @ ''6d53b268'')"
    by (rule deriveIncognitoAddress_eval [OF m1 _ x1])
      (simp add: hashStep_def numberToString_def digitChar_def toStringRadix.simps)
  have d2: "deriveIncognitoAddress ''0x1B00000000000000000000000000000000000000'' 1
     = Inr (''0x'' @ ''6d53b268'' @ ''6d53b268'' @ ''6d53b268'' @ ''6d53b268'' @ ''6d53b268'')"
    by (rule deriveIncognitoAddress_eval [OF m2 _ x1])
      (simp add: hashStep_def numberToString_def digitChar_def toStringRadix.simps)
  have d3: "deriveIncognitoAddress ''0x1111111111111111111111111111111111111111'' 9186836626
     = Inr (''0x'' @ ''4f397cdd'' @ ''4f397cdd'' @ ''4f397cdd'' @ ''4f397cdd'' @ ''4f397cdd'')"
    by (rule deriveIncognitoAddress_eval [OF valid_ones_address _ x2])
      (simp add: hashStep_def numberToString_def digitChar_def toStringRadix.simps)
  have d4: "deriveIncognitoAddress ''0x1111111111111111111111111111111111111111'' 3205549386
     = Inr (''0x'' @ ''4f397cdd'' @ ''4f397cdd'' @ ''4f397cdd'' @ ''4f397cdd'' @ ''4f397cdd'')"
    by (rule deriveIncognitoAddress_eval [OF valid_ones_address _ x4])
      (simp add: hashStep_def numberToString_def digitChar_def toStringRadix.simps)
  have d5: "deriveIncognitoAddress ''0x1111111111111111111111111111111111111111'' 823268356
     = Inr (''0x'' @ ''11111111'' @ ''11111111'' @ ''11111111'' @ ''11111111'' @ ''11111111'')"
    by (rule deriveIncognitoAddress_eval [OF valid_ones_address _ x3])
      (simp add: hashStep_def numberToString_def digitChar_def toStringRadix.simps)
  have safe: "isSafeInteger 1" "isSafeInteger 9186836626" "isSafeInteger 3205549386"
    "isSafeInteger 823268356"
    by (simp_all add: isSafeInteger_def)
  from m1 m2 d1 d2 d3 d4 d5 safe show ?thesis by simp
qed

subsection \<open>Validation of inputs\<close>

text \<open>
  Claim C6.  For every string that is not \<open>0x\<close> followed by exactly 40 hex digits (the
  empty string among them), \<open>shieldTokens\<close>, \<open>unshieldTokens\<close>,
  \<open>deriveIncognitoAddress\<close>, \<open>getShieldedBalance\<close> and \<open>getIncognitoBalance\<close> each
  throw their invalid-address error, whatever the other arguments are, and so before
  anything else is done.
\<close>

theorem address_validation:
  "\<not> matchAddress a \<Longrightarrow>
     shieldTokens rnd a t amt c = Inl (Error ''Invalid wallet address'') \<and>
     unshieldTokens rnd a t amt c = Inl (Error ''Invalid destination address'') \<and>
     deriveIncognitoAddress a c = Inl (Error ''Invalid main wallet address'') \<and>
     getShieldedBalance a t c = Inl (Error ''Invalid wallet address'') \<and>
     getIncognitoBalance a t c = Inl (Error ''Invalid incognito address'')"
  by (simp add: shieldTokens_def unshieldTokens_def deriveIncognitoAddress_def
        getShieldedBalance_def getIncognitoBalance_def)

text \<open>
  C6 at the address \<open>invalid\<close> and at the empty string.
\<close>

theorem address_validation_witness:
  "\<not> matchAddress ''invalid'' \<and>
   shieldTokens ''8a3f'' ''invalid'' USDC ''1000'' 1 = Inl (Error ''Invalid wallet address'') \<and>
   unshieldTokens ''8a3f'' ''invalid'' USDC ''1000'' 1 = Inl (Error ''Invalid destination address'') \<and>
   deriveIncognitoAddress ''invalid'' 1 = Inl (Error ''Invalid main wallet address'') \<and>
   getShieldedBalance ''invalid'' USDC 1 = Inl (Error ''Invalid wallet address'') \<and>
   getIncognitoBalance ''invalid'' USDC 1 = Inl (Error ''Invalid incognito address'') \<and>
   \<not> matchAddress [] \<and>
   shieldTokens ''8a3f'' [] USDC ''1000'' 1 = Inl (Error ''Invalid wallet address'')"
proof -
  have e: "\<not> matchAddress []" by (simp add: matchAddress_def)
  from address_validation [OF invalid_test_address, of "''8a3f''" USDC "''1000''" 1]
    address_validation [OF e, of "''8a3f''" USDC "''1000''" 1] invalid_test_address e
  show ?thesis by simp
qed

text \<open>
  Claim C5 fails on the code for amounts that are not numeric.  For a well-formed
  address and a non-empty amount that \<open>parseFloat\<close> reads as not-a-number, the test
  \<open>parseFloat(amount) <= 0\<close> is false, so \<open>shieldTokens\<close> and \<open>unshieldTokens\<close> do not
  throw \<open>Invalid amount\<close>: both go on and return a pending transaction.
\<close>

theorem non_numeric_amount_accepted:
  assumes "matchAddress a" and "amt \<noteq> []" and "parseFloat amt = NaN"
  shows "shieldTokens rnd a t amt c = Inr \<lparr>txHash = ''0x'' @ padEnd 64 CHR ''0'' rnd, state = PENDING\<rparr> \<and>
         unshieldTokens rnd a t amt c = Inr \<lparr>txHash = ''0x'' @ padEnd 64 CHR ''0'' rnd, state = PENDING\<rparr>"
proof -
  from assms(1) have "a \<noteq> []" by (auto simp: matchAddress_def)
  with assms show ?thesis by (simp add: shieldTokens_def unshieldTokens_def)
qed

text \<open>
  C5 at the amount \<open>abc\<close>: accepted by both operations.
\<close>

theorem non_numeric_amount_accepted_witness:
  "matchAddress ''0x1234567890123456789012345678901234567890'' \<and> ''abc'' \<noteq> [] \<and> parseFloat ''abc'' = NaN \<and>
   shieldTokens ''8a3f'' ''0x1234567890123456789012345678901234567890'' USDC ''abc'' 1
     = Inr \<lparr>txHash = ''0x8a3f000000000000000000000000000000000000000000000000000000000000'', state = PENDING\<rparr> \<and>
   unshieldTokens ''8a3f'' ''0x1234567890123456789012345678901234567890'' USDC ''abc'' 1
     = Inr \<lparr>txHash = ''0x8a3f000000000000000000000000000000000000000000000000000000000000'', state = PENDING\<rparr>"
proof -
  have h2: "''abc'' \<noteq> []" by simp
  have pad: "padEnd 64 CHR ''0'' ''8a3f'' = ''8a3f000000000000000000000000000000000000000000000000000000000000''"
    by (simp add: padEnd_def numeral_eq_Suc)
  from non_numeric_amount_accepted [OF valid_test_address h2 parse_abc, of "''8a3f''" USDC 1]
    valid_test_address parse_abc
  show ?thesis by (simp add: pad)
qed

subsection \<open>The phases of the flow\<close>



text \<open>
  Claim C8.  \<open>preparePrivateFunds\<close> makes one module call, a shield from the given main
  wallet address; \<open>exitPrivatePosition\<close> makes one module call, a shield from
  \<open>incognitoWallet.address\<close>, and its \<open>mainWalletAddress\<close> field has no influence;
  \<open>unshieldForTrading\<close> makes one module call, an unshield to
  \<open>incognitoWallet.address\<close>, and a transaction it returns has that address as
  \<open>destinationAddress\<close>.  A transaction returned carries the hash that this call gave.
\<close>

theorem address_routing:
  "fst (preparePrivateFunds M c now main cfg) = [ShieldTokens main (token cfg) (amount cfg) c] \<and>
   fst (exitPrivatePosition M c now w cfg) = [ShieldTokens (address w) (token cfg) (amount cfg) c] \<and>
   exitPrivatePosition M c now (w\<lparr>mainWalletAddress := other\<rparr>) cfg = exitPrivatePosition M c now w cfg \<and>
   fst (unshieldForTrading M c now w cfg) = [UnshieldTokens (address w) (token cfg) (amount cfg) c] \<and>
   (\<forall>tx. snd (unshieldForTrading M c now w cfg) = Inr tx \<longrightarrow> u_destinationAddress tx = address w) \<and>
   (\<forall>tx. snd (preparePrivateFunds M c now main cfg) = Inr tx \<longrightarrow>
      (\<exists>r. ShieldModule_shieldTokens M main (token cfg) (amount cfg) c = Inr r \<and> s_txHash tx = txHash r)) \<and>
   (\<forall>tx. snd (exitPrivatePosition M c now w cfg) = Inr tx \<longrightarrow>
      (\<exists>r. ShieldModule_shieldTokens M (address w) (token cfg) (amount cfg) c = Inr r \<and> s_txHash tx = txHash r)) \<and>
   (\<forall>tx. snd (unshieldForTrading M c now w cfg) = Inr tx \<longrightarrow>
      (\<exists>r. UnshieldModule_unshieldTokens M (address w) (token cfg) (amount cfg) c = Inr r \<and> u_txHash tx = txHash r))"
  by (auto simp: preparePrivateFunds_def unshieldForTrading_def exitPrivatePosition_def Let_def
      split: sum.splits)

text \<open>
  C8 at the main wallet \<open>0x11...11\<close> and an incognito wallet at \<open>0x1234...7890\<close>.
\<close>

theorem address_routing_witness:
  "preparePrivateFunds (sourceModules ''8a3f'') 1 0 ''0x1111111111111111111111111111111111111111'' (testConfig ''10000'')
     = ([ShieldTokens ''0x1111111111111111111111111111111111111111'' USDC ''10000'' 1],
        Inr \<lparr>s_txHash = ''0x8a3f000000000000000000000000000000000000000000000000000000000000'',
             s_token = USDC, s_amount = ''10000'', s_state = PENDING, s_startedAt = 0,
             s_confirmedAt = None, s_error = None\<rparr>) \<and>
   exitPrivatePosition (sourceModules ''8a3f'') 1 0
       (testWallet ''0x1234567890123456789012345678901234567890'' ''0x1111111111111111111111111111111111111111'')
       (testConfig ''10000'')
     = ([ShieldTokens ''0x1234567890123456789012345678901234567890'' USDC ''10000'' 1],
        Inr \<lparr>s_txHash = ''0x8a3f000000000000000000000000000000000000000000000000000000000000'',
             s_token = USDC, s_amount = ''10000'', s_state = PENDING, s_startedAt = 0,
             s_confirmedAt = None, s_error = None\<rparr>) \<and>
   unshieldForTrading (sourceModules ''8a3f'') 1 0
       (testWallet ''0x1234567890123456789012345678901234567890'' ''0x1111111111111111111111111111111111111111'')
       (testConfig ''10000'')
     = ([UnshieldTokens ''0x1234567890123456789012345678901234567890'' USDC ''10000'' 1],
        Inr \<lparr>u_txHash = ''0x8a3f000000000000000000000000000000000000000000000000000000000000'',
             u_token = USDC, u_amount = ''10000'',
             u_destinationAddress = ''0x1234567890123456789012345678901234567890'',
             u_state = PENDING, u_startedAt = 0, u_completedAt = None, u_error = None\<rparr>)"
proof -
  have pad: "padEnd 64 CHR ''0'' ''8a3f'' = ''8a3f000000000000000000000000000000000000000000000000000000000000''"
    by (simp add: padEnd_def numeral_eq_Suc)
  have s1: "shieldTokens ''8a3f'' ''0x1111111111111111111111111111111111111111'' USDC ''10000'' 1
      = Inr \<lparr>txHash = ''0x8a3f000000000000000000000000000000000000000000000000000000000000'', state = PENDING\<rparr>"
    using valid_ones_address leZero_10000 by (simp add: shieldTokens_def pad)
  have s2: "shieldTokens ''8a3f'' ''0x1234567890123456789012345678901234567890'' USDC ''10000'' 1
      = Inr \<lparr>txHash = ''0x8a3f000000000000000000000000000000000000000000000000000000000000'', state = PENDING\<rparr>"
    using valid_test_address leZero_10000 by (simp add: shieldTokens_def pad)
  have s3: "unshieldTokens ''8a3f'' ''0x1234567890123456789012345678901234567890'' USDC ''10000'' 1
      = Inr \<lparr>txHash = ''0x8a3f000000000000000000000000000000000000000000000000000000000000'', state = PENDING\<rparr>"
    using valid_test_address leZero_10000 by (simp add: unshieldTokens_def pad)
  have p: "snd (preparePrivateFunds (sourceModules ''8a3f'') 1 0 ''0x1111111111111111111111111111111111111111'' (testConfig ''10000''))
     = Inr \<lparr>s_txHash = ''0x8a3f000000000000000000000000000000000000000000000000000000000000'',
             s_token = USDC, s_amount = ''10000'', s_state = PENDING, s_startedAt = 0,
             s_confirmedAt = None, s_error = None\<rparr>"
    by (simp add: preparePrivateFunds_def sourceModules_def testConfig_def s1)
  have x: "snd (exitPrivatePosition (sourceModules ''8a3f'') 1 0
       (testWallet ''0x1234567890123456789012345678901234567890'' ''0x1111111111111111111111111111111111111111'')
       (testConfig ''10000''))
     = Inr \<lparr>s_txHash = ''0x8a3f000000000000000000000000000000000000000000000000000000000000'',
             s_token = USDC, s_amount = ''10000'', s_state = PENDING, s_startedAt = 0,
             s_confirmedAt = None, s_error = None\<rparr>"
    by (simp add: exitPrivatePosition_def sourceModules_def testConfig_def testWallet_def s2)
  have u: "snd (unshieldForTrading (sourceModules ''8a3f'') 1 0
       (testWallet ''0x1234567890123456789012345678901234567890'' ''0x1111111111111111111111111111111111111111'')
       (testConfig ''10000''))
     = Inr \<lparr>u_txHash = ''0x8a3f000000000000000000000000000000000000000000000000000000000000'',
             u_token = USDC, u_amount = ''10000'',
             u_destinationAddress = ''0x1234567890123456789012345678901234567890'',
             u_state = PENDING, u_startedAt = 0, u_completedAt = None, u_error = None\<rparr>"
    by (simp add: unshieldForTrading_def sourceModules_def testConfig_def testWallet_def s3)
  have t: "token (testConfig ''10000'') = USDC" "amount (testConfig ''10000'') = ''10000''"
    "address (testWallet ''0x1234567890123456789012345678901234567890'' ''0x1111111111111111111111111111111111111111'')
       = ''0x1234567890123456789012345678901234567890''"
    by (simp_all add: testConfig_def testWallet_def)
  note r = address_routing [of "sourceModules ''8a3f''" 1 0 "''0x1111111111111111111111111111111111111111''"
      "testConfig ''10000''"
      "testWallet ''0x1234567890123456789012345678901234567890'' ''0x1111111111111111111111111111111111111111''"]
  from r have f1: "fst (preparePrivateFunds (sourceModules ''8a3f'') 1 0 ''0x1111111111111111111111111111111111111111'' (testConfig ''10000''))
      = [ShieldTokens ''0x1111111111111111111111111111111111111111'' USDC ''10000'' 1]"
    by (simp add: t)
  from r have f2: "fst (exitPrivatePosition (sourceModules ''8a3f'') 1 0
       (testWallet ''0x1234567890123456789012345678901234567890'' ''0x1111111111111111111111111111111111111111'')
       (testConfig ''10000''))
      = [ShieldTokens ''0x1234567890123456789012345678901234567890'' USDC ''10000'' 1]"
    by (simp add: t)
  from r have f3: "fst (unshieldForTrading (sourceModules ''8a3f'') 1 0
       (testWallet ''0x1234567890123456789012345678901234567890'' ''0x1111111111111111111111111111111111111111'')
       (testConfig ''10000''))
      = [UnshieldTokens ''0x1234567890123456789012345678901234567890'' USDC ''10000'' 1]"
    by (simp add: t)
  from f1 f2 f3 p x u show ?thesis by (simp add: prod_eq_iff)
qed

end
